theory Spec2Isabelle
  imports Complex_Main
begin

section \<open>The AI-proxy server of DocHelper (server.js)\<close>

text \<open>
  The server keeps two module-level variables, \<open>groq\<close> (the provider client, initially
  undefined) and \<open>initializationAttempts\<close>. Each route handler is modelled as a function
  from the state before the request to the state after it, the list of observable effects
  (console output, timers armed, SDK calls) and the HTTP response. Handlers run one after
  the other; interleaving of suspended handlers is not modelled.
\<close>

subsection \<open>JavaScript values\<close>

text \<open>
  Values as \<open>JSON.parse\<close> produces them, plus \<open>undefined\<close>. A string is the list of
  its UTF-16 code units (one \<open>char\<close> per unit, so \<open>length\<close> is the \<open>.length\<close> of the
  source); a number is a finite number, kept as the rational it denotes. An object is the
  list of its own properties in insertion order.
\<close>

datatype jsval =
    JUndefined
  | JNull
  | JBool bool
  | JNum rat
  | JStr string
  | JArr "jsval list"
  | JObj "(string \<times> jsval) list"

text \<open>ToBoolean, as applied by \<open>!x\<close>, \<open>x ? a : b\<close> and \<open>x || y\<close>.\<close>

fun truthy :: "jsval \<Rightarrow> bool" where
  "truthy JUndefined = False"
| "truthy JNull = False"
| "truthy (JBool b) = b"
| "truthy (JNum r) = (r \<noteq> 0)"
| "truthy (JStr s) = (s \<noteq> [])"
| "truthy (JArr xs) = True"
| "truthy (JObj kvs) = True"

text \<open>\<open>a || b\<close> on values already computed.\<close>

definition js_or :: "jsval \<Rightarrow> jsval \<Rightarrow> jsval" where
  "js_or a b = (if truthy a then a else b)"

text \<open>
  \<open>String.prototype.includes(t)\<close> with the default position: some suffix of the receiver
  starts with \<open>t\<close>. The comparison is on code units, hence case-sensitive.
\<close>

fun str_includes :: "string \<Rightarrow> string \<Rightarrow> bool" where
  "str_includes [] t = (t = [])"
| "str_includes (c # cs) t = (take (length t) (c # cs) = t \<or> str_includes cs t)"

text \<open>
  Own-property lookup on an object literal or a parsed JSON object: a later duplicate key
  overwrites an earlier one; a missing key reads as \<open>undefined\<close>.
\<close>

definition get_own :: "(string \<times> jsval) list \<Rightarrow> string \<Rightarrow> jsval" where
  "get_own kvs k = (case map_of (rev kvs) k of None \<Rightarrow> JUndefined | Some v \<Rightarrow> v)"

text \<open>
  \<open>JSON.stringify\<close> of a flat object literal, as \<open>res.json\<close> applies it: a property whose
  value is \<open>undefined\<close> is left out of the serialized body.
\<close>

definition res_json :: "(string \<times> jsval) list \<Rightarrow> (string \<times> jsval) list" where
  "res_json obj = filter (\<lambda>kv. snd kv \<noteq> JUndefined) obj"

text \<open>
  Decimal rendering of a counter, as a template literal renders a small non-negative
  integer. \<open>digit_char\<close> is only applied to numbers below 10.
\<close>

definition digit_char :: "nat \<Rightarrow> char" where
  "digit_char d = ''0123456789'' ! d"

function nat_to_string :: "nat \<Rightarrow> string" where
  "nat_to_string n = (if n < 10 then [digit_char n] else nat_to_string (n div 10) @ [digit_char (n mod 10)])"
  by pat_completeness auto
termination
  by (relation "measure (\<lambda>n. n)") auto

subsection \<open>The provider SDK and the process environment\<close>

record groq_options =
  apiKey :: string
  timeout :: nat

text \<open>The SDK client object, identified by the options it was constructed with.\<close>

datatype client = Client (options: groq_options)

record chat_turn =
  role :: string
  content :: string

record completion_params =
  messages :: "chat_turn list"
  model :: string
  temperature :: rat
  max_tokens :: nat
  top_p :: rat
  stream :: bool

text \<open>
  The part of a chat completion the handlers read: \<open>choices[0]?.message?.content\<close>.
  \<open>None\<close> stands for an absent (undefined or null) member.
\<close>

record choice =
  message :: "string option option"

record completion =
  choices :: "choice list"

text \<open>
  A thrown value: an object whose \<open>message\<close> property is \<open>error_message\<close>
  (\<open>JUndefined\<close> when the object has no such property). \<open>new Error(m)\<close> is
  \<open>Thrown (JStr m)\<close>.
\<close>

datatype thrown = Thrown (error_message: jsval)

text \<open>
  Everything outside server.js that a handler depends on: the process environment, the SDK
  constructor and the provider call, the clock, and the runtime's coercions of strings and
  objects (ToNumber of a string or object, ToString of a number or object), which may
  themselves throw an Error with the given message.
\<close>

record world =
  GROQ_API_KEY :: "string option"
  Groq_throws :: "groq_options \<Rightarrow> string option"
  create :: "client \<Rightarrow> completion_params \<Rightarrow> thrown + completion"
  now_iso :: string
  coerce_number :: "jsval \<Rightarrow> string + rat option"
  coerce_string :: "jsval \<Rightarrow> string + string"

text \<open>\<open>new Groq(opts)\<close>: throws, or yields the client for these options.\<close>

definition Groq_new :: "world \<Rightarrow> groq_options \<Rightarrow> string + client" where
  "Groq_new w opts = (case Groq_throws w opts of Some e \<Rightarrow> Inl e | None \<Rightarrow> Inr (Client opts))"

subsection \<open>Server state and effects\<close>

record server_state =
  groq :: "client option"
  initializationAttempts :: nat

definition MAX_INITIALIZATION_ATTEMPTS :: nat where
  "MAX_INITIALIZATION_ATTEMPTS = 3"

text \<open>The module's initial state: \<open>let groq; let initializationAttempts = 0;\<close>\<close>

definition initial_state :: server_state where
  "initial_state = \<lparr>groq = None, initializationAttempts = 0\<rparr>"

datatype logged = LogStr string | LogErr thrown

datatype event =
    ConsoleLog "logged list"
  | ConsoleError "logged list"
  | SetTimeout nat
  | NewGroq groq_options
  | ChatCompletionsCreate client completion_params

subsection \<open>Client lifecycle\<close>

text \<open>
  The body of the \<open>try\<close> block of \<open>initializeGroq\<close>: \<open>Inl m\<close> is an Error with message
  \<open>m\<close> thrown inside it.
\<close>

definition initializeGroq_try :: "world \<Rightarrow> server_state \<Rightarrow> string + (server_state \<times> event list)" where
  "initializeGroq_try w s =
     (case GROQ_API_KEY w of
        None \<Rightarrow> Inl ''GROQ_API_KEY is not set in environment variables''
      | Some k \<Rightarrow>
          if k = [] then Inl ''GROQ_API_KEY is not set in environment variables''
          else
            (let opts = \<lparr>apiKey = k, timeout = 30000\<rparr> in
             case Groq_new w opts of
               Inl e \<Rightarrow> Inl e
             | Inr c \<Rightarrow>
                 Inr (s\<lparr>groq := Some c\<rparr>,
                      [NewGroq opts, ConsoleLog [LogStr ''Groq AI service initialized successfully'']])))"

text \<open>\<open>initializeGroq\<close>: the \<open>catch\<close> clause logs the message and returns false.\<close>

definition initializeGroq :: "world \<Rightarrow> server_state \<Rightarrow> bool \<times> server_state \<times> event list" where
  "initializeGroq w s =
     (case initializeGroq_try w s of
        Inr (s', ev) \<Rightarrow> (True, s', ev)
      | Inl m \<Rightarrow> (False, s, [ConsoleError [LogStr ''Failed to initialize Groq:'', LogStr m]]))"

function initializeGroqWithRetry :: "world \<Rightarrow> server_state \<Rightarrow> server_state \<times> event list" where
  "initializeGroqWithRetry w s =
     (if initializationAttempts s < MAX_INITIALIZATION_ATTEMPTS \<and> groq s = None then
        (case initializeGroq w s of
           (ok, s1, ev) \<Rightarrow>
             if ok then (s1, ev)
             else
               (let s2 = s1\<lparr>initializationAttempts := initializationAttempts s1 + 1\<rparr> in
                case initializeGroqWithRetry w s2 of
                  (s3, ev3) \<Rightarrow> (s3, ev @ [SetTimeout (1000 * initializationAttempts s2)] @ ev3)))
      else (s, []))"
  by pat_completeness auto
termination
  by (relation "measure (\<lambda>(w, s). MAX_INITIALIZATION_ATTEMPTS - initializationAttempts s)")
     (auto simp: initializeGroq_def initializeGroq_try_def Let_def
        split: option.splits if_splits sum.splits)

text \<open>The call made once when the module is loaded.\<close>

definition startup :: "world \<Rightarrow> server_state \<times> event list" where
  "startup w = initializeGroqWithRetry w initial_state"

subsection \<open>Coercions and property reads used by the handlers\<close>

text \<open>
  ToNumber: defined here on undefined, null, booleans and numbers; the parsing of strings and
  the conversion of arrays and objects are the runtime's (\<open>coerce_number\<close>). \<open>None\<close> is NaN.
\<close>

fun ToNumber :: "world \<Rightarrow> jsval \<Rightarrow> string + rat option" where
  "ToNumber w JUndefined = Inr None"
| "ToNumber w JNull = Inr (Some 0)"
| "ToNumber w (JBool b) = Inr (Some (if b then 1 else 0))"
| "ToNumber w (JNum r) = Inr (Some r)"
| "ToNumber w v = coerce_number w v"

text \<open>\<open>v > n\<close> for a number literal \<open>n\<close>: false when \<open>v\<close> converts to NaN.\<close>

definition js_gt :: "world \<Rightarrow> jsval \<Rightarrow> rat \<Rightarrow> string + bool" where
  "js_gt w v n =
     (case ToNumber w v of
        Inl e \<Rightarrow> Inl e
      | Inr None \<Rightarrow> Inr False
      | Inr (Some r) \<Rightarrow> Inr (n < r))"

text \<open>
  ToString, as a template literal applies it: defined here on undefined, null, booleans and
  strings; numbers, arrays and objects are rendered by the runtime (\<open>coerce_string\<close>).
\<close>

fun ToString :: "world \<Rightarrow> jsval \<Rightarrow> string + string" where
  "ToString w JUndefined = Inr ''undefined''"
| "ToString w JNull = Inr ''null''"
| "ToString w (JBool b) = Inr (if b then ''true'' else ''false'')"
| "ToString w (JStr s) = Inr s"
| "ToString w v = coerce_string w v"

text \<open>
  \<open>text.length\<close>: the number of code units of a string, the number of elements of an array,
  the own property of an object, undefined on a boolean or a number, and a TypeError on
  undefined and null.
\<close>

fun get_length :: "jsval \<Rightarrow> string + jsval" where
  "get_length JUndefined = Inl ''Cannot read properties of undefined (reading 'length')''"
| "get_length JNull = Inl ''Cannot read properties of null (reading 'length')''"
| "get_length (JBool b) = Inr JUndefined"
| "get_length (JNum r) = Inr JUndefined"
| "get_length (JStr s) = Inr (JNum (of_nat (length s)))"
| "get_length (JArr xs) = Inr (JNum (of_nat (length xs)))"
| "get_length (JObj kvs) = Inr (get_own kvs ''length'')"

text \<open>
  \<open>error.message?.includes(t)\<close>: undefined when the message is undefined or null, the
  substring test on a string, the membership test on an array, and a TypeError on a value
  with no callable \<open>includes\<close>.
\<close>

fun message_includes :: "jsval \<Rightarrow> string \<Rightarrow> string + jsval" where
  "message_includes JUndefined t = Inr JUndefined"
| "message_includes JNull t = Inr JUndefined"
| "message_includes (JStr s) t = Inr (JBool (str_includes s t))"
| "message_includes (JArr xs) t = Inr (JBool (JStr t \<in> set xs))"
| "message_includes v t = Inl ''error.message?.includes is not a function''"

text \<open>
  The classification both \<open>catch\<close> clauses compute, with the short circuit of \<open>||\<close>:
  \<open>includes('timeout') || includes('rate limit') || includes('connection')\<close>.
\<close>

definition isRetryableError :: "jsval \<Rightarrow> string + jsval" where
  "isRetryableError m =
     (case message_includes m ''timeout'' of
        Inl e \<Rightarrow> Inl e
      | Inr a \<Rightarrow>
          if truthy a then Inr a
          else
            (case message_includes m ''rate limit'' of
               Inl e \<Rightarrow> Inl e
             | Inr b \<Rightarrow> if truthy b then Inr b else message_includes m ''connection''))"

text \<open>\<open>completion.choices[0]?.message?.content\<close>\<close>

definition first_content :: "completion \<Rightarrow> string option" where
  "first_content c =
     (case choices c of
        [] \<Rightarrow> None
      | ch # rest \<Rightarrow> (case message ch of None \<Rightarrow> None | Some m \<Rightarrow> m))"

subsection \<open>Responses\<close>

text \<open>A response: the status code (200 unless \<open>res.status\<close> set it) and the serialized JSON body.\<close>

record response =
  status :: nat
  body :: "(string \<times> jsval) list"

text \<open>
  What a handler leaves behind: a response, or, when its \<open>catch\<close> clause itself throws,
  a rejected promise and no response.
\<close>

datatype outcome = Sent response | Unhandled string

subsection \<open>GET /health\<close>

definition health :: "world \<Rightarrow> server_state \<Rightarrow> response" where
  "health w s =
     \<lparr>status = 200,
      body = res_json
        [(''server'', JStr ''healthy''),
         (''aiService'', JStr (if groq s \<noteq> None then ''available'' else ''unavailable'')),
         (''aiError'',
            if groq s = None
            then JStr (''AI service not initialized after '' @
                       nat_to_string (initializationAttempts s) @ '' attempts'')
            else JNull),
         (''timestamp'', JStr (now_iso w))]\<rparr>"

text \<open>
  The opening of both POST handlers, \<open>if (!groq) { await initializeGroqWithRetry(); }\<close>:
  the state and the effects after it.
\<close>

definition ensure_client :: "world \<Rightarrow> server_state \<Rightarrow> server_state \<times> event list" where
  "ensure_client w s = (if groq s = None then initializeGroqWithRetry w s else (s, []))"

subsection \<open>POST /api/suggest\<close>

definition suggest_prompt :: "string \<Rightarrow> string" where
  "suggest_prompt text =
     ''You are DocHelper AI, a professional document assistant. Please help improve the following text while maintaining its core meaning and professional tone. Focus on clarity, conciseness, and proper formatting. If the text appears to be a specific document type (e.g., resume, contract, letter), apply appropriate formatting and style conventions for that type:'' @
     [CHR 0x0A] @
     [CHR 0x0A] @
     text"

definition suggest_params :: "string \<Rightarrow> completion_params" where
  "suggest_params text =
     \<lparr>messages =
        [\<lparr>role = ''system'',
          content = ''You are DocHelper AI, a professional document assistant focused on improving text while maintaining meaning and tone. You excel at identifying document types and applying appropriate formatting and style conventions.''\<rparr>,
         \<lparr>role = ''user'', content = suggest_prompt text\<rparr>],
      model = ''mixtral-8x7b-32768'',
      temperature = 0.7,
      max_tokens = 32768,
      top_p = 1,
      stream = False\<rparr>"

text \<open>The \<open>try\<close> block: \<open>Inl\<close> is a value thrown inside it, \<open>Inr\<close> a response sent from it.\<close>

definition suggest_try :: "world \<Rightarrow> client \<Rightarrow> (string \<times> jsval) list \<Rightarrow> event list \<times> (thrown + response)" where
  "suggest_try w g req_body =
     (let text = get_own req_body ''text'' in
      if \<not> truthy text then
        ([], Inr \<lparr>status = 400,
                  body = res_json [(''error'', JStr ''Missing text''),
                                   (''message'', JStr ''Please provide text to get suggestions'')]\<rparr>)
      else
        (case get_length text of
           Inl e \<Rightarrow> ([], Inl (Thrown (JStr e)))
         | Inr len \<Rightarrow>
             (case js_gt w len 32000 of
                Inl e \<Rightarrow> ([], Inl (Thrown (JStr e)))
              | Inr too_long \<Rightarrow>
                  if too_long then
                    ([], Inr \<lparr>status = 400,
                              body = res_json [(''error'', JStr ''Text too long''),
                                               (''message'', JStr ''The provided text exceeds the maximum length limit'')]\<rparr>)
                  else
                    (case ToString w text of
                       Inl e \<Rightarrow> ([], Inl (Thrown (JStr e)))
                     | Inr str \<Rightarrow>
                         (let params = suggest_params str in
                          case create w g params of
                            Inl err \<Rightarrow> ([ChatCompletionsCreate g params], Inl err)
                          | Inr completion \<Rightarrow>
                              (case first_content completion of
                                 None \<Rightarrow>
                                   ([ChatCompletionsCreate g params],
                                    Inl (Thrown (JStr ''No suggestion generated'')))
                               | Some suggestion \<Rightarrow>
                                   if suggestion = [] then
                                     ([ChatCompletionsCreate g params],
                                      Inl (Thrown (JStr ''No suggestion generated'')))
                                   else
                                     ([ChatCompletionsCreate g params],
                                      Inr \<lparr>status = 200,
                                           body = res_json [(''suggestion'', JStr suggestion)]\<rparr>)))))))"

text \<open>The \<open>catch\<close> clause.\<close>

definition suggest_catch :: "thrown \<Rightarrow> event list \<times> outcome" where
  "suggest_catch error =
     (let logline = ConsoleError [LogStr ''Error generating suggestion:'', LogErr error] in
      case isRetryableError (error_message error) of
        Inl e \<Rightarrow> ([logline], Unhandled e)
      | Inr r \<Rightarrow>
          ([logline],
           Sent \<lparr>status = (if truthy r then 503 else 500),
                 body = res_json
                   [(''error'', JStr ''AI service error''),
                    (''message'', js_or (error_message error) (JStr ''Failed to generate suggestion'')),
                    (''retryable'', r)]\<rparr>))"

definition api_suggest :: "world \<Rightarrow> server_state \<Rightarrow> (string \<times> jsval) list \<Rightarrow> server_state \<times> event list \<times> outcome" where
  "api_suggest w s req_body =
     (case ensure_client w s of
        (s1, ev1) \<Rightarrow>
          (case groq s1 of
             None \<Rightarrow>
               (s1, ev1,
                Sent \<lparr>status = 503,
                      body = res_json
                        [(''error'', JStr ''AI service unavailable''),
                         (''message'', JStr ''The AI service is not properly initialized. Please try again later.'')]\<rparr>)
           | Some g \<Rightarrow>
               (case suggest_try w g req_body of
                  (ev2, r) \<Rightarrow>
                    (case r of
                       Inr resp \<Rightarrow> (s1, ev1 @ ev2, Sent resp)
                     | Inl error \<Rightarrow>
                         (case suggest_catch error of
                            (ev3, out) \<Rightarrow> (s1, ev1 @ ev2 @ ev3, out))))))"

subsection \<open>POST /api/format\<close>

definition format_prompt :: "string \<Rightarrow> string" where
  "format_prompt text =
     ''You are DocHelper AI, a professional document formatter. Please format the following text to improve its structure and readability. Apply the following formatting guidelines:'' @
     [CHR 0x0A] @
     [CHR 0x0A] @
     ''1. Use appropriate headings and subheadings'' @
     [CHR 0x0A] @
     ''2. Organize content into logical paragraphs'' @
     [CHR 0x0A] @
     ''3. Use bullet points or numbered lists where appropriate'' @
     [CHR 0x0A] @
     ''4. Add proper spacing between sections'' @
     [CHR 0x0A] @
     ''5. Maintain consistent formatting throughout'' @
     [CHR 0x0A] @
     ''6. If the text is a specific document type (e.g., resume, contract), apply standard formatting conventions'' @
     [CHR 0x0A] @
     [CHR 0x0A] @
     ''Text to format:'' @
     [CHR 0x0A] @
     [CHR 0x0A] @
     text"

definition format_params :: "string \<Rightarrow> completion_params" where
  "format_params text =
     \<lparr>messages =
        [\<lparr>role = ''system'',
          content = ''You are DocHelper AI, a professional document formatter focused on improving document structure, readability, and applying appropriate formatting conventions based on document type.''\<rparr>,
         \<lparr>role = ''user'', content = format_prompt text\<rparr>],
      model = ''mixtral-8x7b-32768'',
      temperature = 0.5,
      max_tokens = 32768,
      top_p = 1,
      stream = False\<rparr>"

definition format_try :: "world \<Rightarrow> client \<Rightarrow> (string \<times> jsval) list \<Rightarrow> event list \<times> (thrown + response)" where
  "format_try w g req_body =
     (let text = get_own req_body ''text'' in
      if \<not> truthy text then
        ([], Inr \<lparr>status = 400,
                  body = res_json [(''error'', JStr ''Missing text''),
                                   (''message'', JStr ''Please provide text to format'')]\<rparr>)
      else
        (case get_length text of
           Inl e \<Rightarrow> ([], Inl (Thrown (JStr e)))
         | Inr len \<Rightarrow>
             (case js_gt w len 32000 of
                Inl e \<Rightarrow> ([], Inl (Thrown (JStr e)))
              | Inr too_long \<Rightarrow>
                  if too_long then
                    ([], Inr \<lparr>status = 400,
                              body = res_json [(''error'', JStr ''Text too long''),
                                               (''message'', JStr ''The provided text exceeds the maximum length limit'')]\<rparr>)
                  else
                    (case ToString w text of
                       Inl e \<Rightarrow> ([], Inl (Thrown (JStr e)))
                     | Inr str \<Rightarrow>
                         (let params = format_params str in
                          case create w g params of
                            Inl err \<Rightarrow> ([ChatCompletionsCreate g params], Inl err)
                          | Inr completion \<Rightarrow>
                              (case first_content completion of
                                 None \<Rightarrow>
                                   ([ChatCompletionsCreate g params],
                                    Inl (Thrown (JStr ''No formatted text generated'')))
                               | Some formattedText \<Rightarrow>
                                   if formattedText = [] then
                                     ([ChatCompletionsCreate g params],
                                      Inl (Thrown (JStr ''No formatted text generated'')))
                                   else
                                     ([ChatCompletionsCreate g params],
                                      Inr \<lparr>status = 200,
                                           body = res_json [(''formattedText'', JStr formattedText)]\<rparr>)))))))"

definition format_catch :: "thrown \<Rightarrow> event list \<times> outcome" where
  "format_catch error =
     (let logline = ConsoleError [LogStr ''Error formatting text:'', LogErr error] in
      case isRetryableError (error_message error) of
        Inl e \<Rightarrow> ([logline], Unhandled e)
      | Inr r \<Rightarrow>
          ([logline],
           Sent \<lparr>status = (if truthy r then 503 else 500),
                 body = res_json
                   [(''error'', JStr ''AI service error''),
                    (''message'', js_or (error_message error) (JStr ''Failed to format text'')),
                    (''retryable'', r)]\<rparr>))"

definition api_format :: "world \<Rightarrow> server_state \<Rightarrow> (string \<times> jsval) list \<Rightarrow> server_state \<times> event list \<times> outcome" where
  "api_format w s req_body =
     (case ensure_client w s of
        (s1, ev1) \<Rightarrow>
          (case groq s1 of
             None \<Rightarrow>
               (s1, ev1,
                Sent \<lparr>status = 503,
                      body = res_json
                        [(''error'', JStr ''AI service unavailable''),
                         (''message'', JStr ''The AI service is not properly initialized. Please try again later.'')]\<rparr>)
           | Some g \<Rightarrow>
               (case format_try w g req_body of
                  (ev2, r) \<Rightarrow>
                    (case r of
                       Inr resp \<Rightarrow> (s1, ev1 @ ev2, Sent resp)
                     | Inl error \<Rightarrow>
                         (case format_catch error of
                            (ev3, out) \<Rightarrow> (s1, ev1 @ ev2 @ ev3, out))))))"

subsection \<open>A run of the server\<close>

text \<open>
  A request names its route and carries \<open>req.body\<close>, taken to be an object as the body
  parser \<open>express.json()\<close> leaves it: the own properties of the parsed JSON object (none
  when the request carried no JSON object).
\<close>

datatype request =
    GetHealth
  | PostSuggest "(string \<times> jsval) list"
  | PostFormat "(string \<times> jsval) list"

fun handle :: "world \<Rightarrow> server_state \<Rightarrow> request \<Rightarrow> server_state \<times> event list \<times> outcome" where
  "handle w s GetHealth = (s, [], Sent (health w s))"
| "handle w s (PostSuggest b) = api_suggest w s b"
| "handle w s (PostFormat b) = api_format w s b"

text \<open>
  Requests served one after the other, each in the world it finds: the final state, all
  effects, and the outcomes in order.
\<close>

fun serve :: "server_state \<Rightarrow> (world \<times> request) list \<Rightarrow> server_state \<times> event list \<times> outcome list" where
  "serve s [] = (s, [], [])"
| "serve s ((w, r) # rest) =
     (case handle w s r of
        (s1, ev1, out) \<Rightarrow>
          (case serve s1 rest of
             (s2, ev2, outs) \<Rightarrow> (s2, ev1 @ ev2, out # outs)))"

subsection \<open>Worlds and states for concrete runs\<close>

text \<open>
  A runtime for the concrete runs. It converts as the language does on the values the runs
  give it: numbers that are integers of magnitude below \<open>10^21\<close>, strings that are empty
  or made of decimal digits (any other string is read as NaN, as a string that is no numeric
  literal is), and arrays and objects built from such values. Numbers with a fraction and
  numeric literals with a sign, a fraction, an exponent, a radix prefix or white space are
  outside what it is used for.
\<close>

definition demo_number_to_string :: "rat \<Rightarrow> string" where
  "demo_number_to_string r =
     (if r < 0 then ''-'' @ nat_to_string (nat \<lfloor>- r\<rfloor>) else nat_to_string (nat \<lfloor>r\<rfloor>))"

definition digit_of :: "char \<Rightarrow> nat option" where
  "digit_of c =
     map_of [(CHR ''0'', 0), (CHR ''1'', 1), (CHR ''2'', 2), (CHR ''3'', 3), (CHR ''4'', 4),
             (CHR ''5'', 5), (CHR ''6'', 6), (CHR ''7'', 7), (CHR ''8'', 8), (CHR ''9'', 9)] c"

fun digits_value :: "string \<Rightarrow> nat \<Rightarrow> nat option" where
  "digits_value [] acc = Some acc"
| "digits_value (c # cs) acc =
     (case digit_of c of None \<Rightarrow> None | Some d \<Rightarrow> digits_value cs (10 * acc + d))"

text \<open>StringToNumber on this fragment: the empty string is 0; \<open>None\<close> is NaN.\<close>

definition demo_string_to_number :: "string \<Rightarrow> rat option" where
  "demo_string_to_number s = map_option of_nat (digits_value s 0)"

text \<open>\<open>Array.prototype.join\<close> with the default separator; \<open>None\<close> when rendering an element throws.\<close>

fun demo_join :: "string option list \<Rightarrow> string option" where
  "demo_join [] = Some []"
| "demo_join [x] = x"
| "demo_join (x # y # ys) =
     (case x of
        None \<Rightarrow> None
      | Some a \<Rightarrow> (case demo_join (y # ys) of None \<Rightarrow> None | Some b \<Rightarrow> Some (a @ '','' @ b)))"

text \<open>
  ToString of any value: an array is its elements joined, with undefined and null elements
  rendered as the empty string; an object is "[object Object]" unless it has an own
  \<open>toString\<close> property, which (being data, not a function) makes the conversion throw a
  TypeError, here \<open>None\<close>.
\<close>

fun demo_render :: "jsval \<Rightarrow> string option" where
  "demo_render JUndefined = Some ''undefined''"
| "demo_render JNull = Some ''null''"
| "demo_render (JBool b) = Some (if b then ''true'' else ''false'')"
| "demo_render (JNum r) = Some (demo_number_to_string r)"
| "demo_render (JStr s) = Some s"
| "demo_render (JArr xs) =
     demo_join (map (\<lambda>x. if x = JUndefined \<or> x = JNull then Some [] else demo_render x) xs)"
| "demo_render (JObj kvs) =
     (if ''toString'' \<in> fst ` set kvs then None else Some ''[object Object]'')"

definition demo_coerce_string :: "jsval \<Rightarrow> string + string" where
  "demo_coerce_string v =
     (case demo_render v of
        None \<Rightarrow> Inl ''Cannot convert object to primitive value''
      | Some s \<Rightarrow> Inr s)"

text \<open>ToNumber of a string, an array or an object: the number its rendering denotes.\<close>

definition demo_coerce_number :: "jsval \<Rightarrow> string + rat option" where
  "demo_coerce_number v =
     (case v of
        JObj kvs \<Rightarrow>
          if ''toString'' \<in> fst ` set kvs then Inl ''Cannot convert object to primitive value''
          else Inr None
      | _ \<Rightarrow>
          (case demo_render v of
             None \<Rightarrow> Inl ''Cannot convert object to primitive value''
           | Some s \<Rightarrow> Inr (demo_string_to_number s)))"

text \<open>A configured process whose provider answers every call with one choice, "Hello world.".\<close>

definition demo_world :: world where
  "demo_world =
     \<lparr>GROQ_API_KEY = Some ''gsk_demo'',
      Groq_throws = (\<lambda>opts. None),
      create = (\<lambda>g p. Inr \<lparr>choices = [\<lparr>message = Some (Some ''Hello world.'')\<rparr>]\<rparr>),
      now_iso = ''2024-05-01T12:00:00.000Z'',
      coerce_number = demo_coerce_number,
      coerce_string = demo_coerce_string\<rparr>"

text \<open>The same process without the credential.\<close>

definition no_key_world :: world where
  "no_key_world = demo_world\<lparr>GROQ_API_KEY := None\<rparr>"

text \<open>The same process with a provider that throws the given value on every call.\<close>

definition throwing_world :: "thrown \<Rightarrow> world" where
  "throwing_world err = demo_world\<lparr>create := (\<lambda>g p. Inl err)\<rparr>"

text \<open>The same process with a provider that answers with the given completion.\<close>

definition answering_world :: "completion \<Rightarrow> world" where
  "answering_world c = demo_world\<lparr>create := (\<lambda>g p. Inr c)\<rparr>"

definition demo_client :: client where
  "demo_client = Client \<lparr>apiKey = ''gsk_demo'', timeout = 30000\<rparr>"

definition ready_state :: server_state where
  "ready_state = \<lparr>groq = Some demo_client, initializationAttempts = 0\<rparr>"

definition exhausted_state :: server_state where
  "exhausted_state = \<lparr>groq = None, initializationAttempts = 3\<rparr>"

subsection \<open>Notions used in the statements\<close>

text \<open>
  The spec's "contains t as a substring": the message is some prefix, then \<open>t\<close>, then some
  suffix.
\<close>

definition contains :: "string \<Rightarrow> string \<Rightarrow> bool" where
  "contains m t = (\<exists>p q. m = p @ t @ q)"

text \<open>The spec's retryable messages: those containing one of the three trigger substrings.\<close>

definition retryable_message :: "string \<Rightarrow> bool" where
  "retryable_message m = (contains m ''timeout'' \<or> contains m ''rate limit'' \<or> contains m ''connection'')"

text \<open>
  The request passes both validation checks and its text renders as \<open>str\<close> in the prompt:
  the text is truthy, its length is not greater than 32000, and the template literal
  evaluates.
\<close>

definition reaches_provider :: "world \<Rightarrow> (string \<times> jsval) list \<Rightarrow> string \<Rightarrow> bool" where
  "reaches_provider w b str =
     (let text = get_own b ''text'' in
      truthy text \<and>
      (case get_length text of Inl e \<Rightarrow> False | Inr len \<Rightarrow> js_gt w len 32000 = Inr False) \<and>
      ToString w text = Inr str)"



text \<open>
  What each request is answered with once initialization has been given up: the health
  report for GET /health, the 503 response for the two POST routes.
\<close>

fun exhausted_outcome :: "server_state \<Rightarrow> world \<times> request \<Rightarrow> outcome" where
  "exhausted_outcome s (w, GetHealth) = Sent (health w s)"
| "exhausted_outcome s (w, r) =
     Sent \<lparr>status = 503,
           body = [(''error'', JStr ''AI service unavailable''),
                   (''message'', JStr ''The AI service is not properly initialized. Please try again later.'')]\<rparr>"

section \<open>Properties\<close>

subsection \<open>Auxiliary facts\<close>

lemma str_includes_iff: "str_includes s t \<longleftrightarrow> (\<exists>p q. s = p @ t @ q)"
proof (induction s)
  case Nil
  then show ?case by auto
next
  case (Cons c cs)
  show ?case
  proof
    assume "str_includes (c # cs) t"
    then consider "take (length t) (c # cs) = t" | "str_includes cs t" by auto
    then show "\<exists>p q. c # cs = p @ t @ q"
    proof cases
      case 1
      then have "c # cs = [] @ t @ drop (length t) (c # cs)"
        by (metis append_Nil append_take_drop_id)
      then show ?thesis by blast
    next
      case 2
      with Cons.IH obtain p q where "cs = p @ t @ q" by blast
      then have "c # cs = (c # p) @ t @ q" by simp
      then show ?thesis by blast
    qed
  next
    assume "\<exists>p q. c # cs = p @ t @ q"
    then obtain p q where pq: "c # cs = p @ t @ q" by blast
    show "str_includes (c # cs) t"
    proof (cases p)
      case Nil
      with pq have "take (length t) (c # cs) = t" by simp
      then show ?thesis by simp
    next
      case (Cons a p')
      with pq have "cs = p' @ t @ q" by simp
      with Cons.IH have "str_includes cs t" by blast
      then show ?thesis by simp
    qed
  qed
qed

declare initializeGroqWithRetry.simps [simp del]

lemma retry_guard_false:
  "\<not> (initializationAttempts s < MAX_INITIALIZATION_ATTEMPTS \<and> groq s = None) \<Longrightarrow>
   initializeGroqWithRetry w s = (s, [])"
  by (subst initializeGroqWithRetry.simps) auto

lemma retry_success:
  "initializationAttempts s < MAX_INITIALIZATION_ATTEMPTS \<Longrightarrow> groq s = None \<Longrightarrow>
   initializeGroq w s = (True, s1, ev) \<Longrightarrow> initializeGroqWithRetry w s = (s1, ev)"
  by (subst initializeGroqWithRetry.simps) auto

lemma retry_failure:
  "initializationAttempts s < MAX_INITIALIZATION_ATTEMPTS \<Longrightarrow> groq s = None \<Longrightarrow>
   initializeGroq w s = (False, s1, ev) \<Longrightarrow>
   initializeGroqWithRetry w s =
     (case initializeGroqWithRetry w (s1\<lparr>initializationAttempts := initializationAttempts s1 + 1\<rparr>) of
        (s3, ev3) \<Rightarrow> (s3, ev @ [SetTimeout (1000 * (initializationAttempts s1 + 1))] @ ev3))"
  by (subst initializeGroqWithRetry.simps) (simp add: Let_def)

lemma contains_str_includes: "contains m t = str_includes m t"
  by (simp add: contains_def str_includes_iff)

lemma initializeGroq_attempts:
  "initializeGroq w s = (b, s', ev) \<Longrightarrow> initializationAttempts s' = initializationAttempts s"
  by (auto simp: initializeGroq_def initializeGroq_try_def Let_def
      split: option.splits if_splits sum.splits)

lemma ensure_client_present: "groq s = Some g \<Longrightarrow> ensure_client w s = (s, [])"
  by (simp add: ensure_client_def)

lemma api_suggest_unavailable:
  "ensure_client w s = (s1, ev1) \<Longrightarrow> groq s1 = None \<Longrightarrow>
   api_suggest w s b =
     (s1, ev1,
      Sent \<lparr>status = 503,
            body = [(''error'', JStr ''AI service unavailable''),
                    (''message'', JStr ''The AI service is not properly initialized. Please try again later.'')]\<rparr>)"
  by (simp add: api_suggest_def res_json_def)

lemma api_format_unavailable:
  "ensure_client w s = (s1, ev1) \<Longrightarrow> groq s1 = None \<Longrightarrow>
   api_format w s b =
     (s1, ev1,
      Sent \<lparr>status = 503,
            body = [(''error'', JStr ''AI service unavailable''),
                    (''message'', JStr ''The AI service is not properly initialized. Please try again later.'')]\<rparr>)"
  by (simp add: api_format_def res_json_def)

lemma api_suggest_sent:
  "ensure_client w s = (s1, ev1) \<Longrightarrow> groq s1 = Some g \<Longrightarrow>
   suggest_try w g b = (ev2, Inr resp) \<Longrightarrow>
   api_suggest w s b = (s1, ev1 @ ev2, Sent resp)"
  by (simp add: api_suggest_def)

lemma api_suggest_caught:
  "ensure_client w s = (s1, ev1) \<Longrightarrow> groq s1 = Some g \<Longrightarrow>
   suggest_try w g b = (ev2, Inl err) \<Longrightarrow> suggest_catch err = (ev3, out) \<Longrightarrow>
   api_suggest w s b = (s1, ev1 @ ev2 @ ev3, out)"
  by (simp add: api_suggest_def)

lemma api_format_sent:
  "ensure_client w s = (s1, ev1) \<Longrightarrow> groq s1 = Some g \<Longrightarrow>
   format_try w g b = (ev2, Inr resp) \<Longrightarrow>
   api_format w s b = (s1, ev1 @ ev2, Sent resp)"
  by (simp add: api_format_def)

lemma api_format_caught:
  "ensure_client w s = (s1, ev1) \<Longrightarrow> groq s1 = Some g \<Longrightarrow>
   format_try w g b = (ev2, Inl err) \<Longrightarrow> format_catch err = (ev3, out) \<Longrightarrow>
   api_format w s b = (s1, ev1 @ ev2 @ ev3, out)"
  by (simp add: api_format_def)

lemma suggest_try_missing:
  "\<not> truthy (get_own b ''text'') \<Longrightarrow>
   suggest_try w g b =
     ([], Inr \<lparr>status = 400,
               body = [(''error'', JStr ''Missing text''),
                       (''message'', JStr ''Please provide text to get suggestions'')]\<rparr>)"
  by (simp add: suggest_try_def res_json_def)

lemma format_try_missing:
  "\<not> truthy (get_own b ''text'') \<Longrightarrow>
   format_try w g b =
     ([], Inr \<lparr>status = 400,
               body = [(''error'', JStr ''Missing text''),
                       (''message'', JStr ''Please provide text to format'')]\<rparr>)"
  by (simp add: format_try_def res_json_def)

lemma suggest_try_too_long:
  "truthy (get_own b ''text'') \<Longrightarrow> get_length (get_own b ''text'') = Inr len \<Longrightarrow>
   js_gt w len 32000 = Inr True \<Longrightarrow>
   suggest_try w g b =
     ([], Inr \<lparr>status = 400,
               body = [(''error'', JStr ''Text too long''),
                       (''message'', JStr ''The provided text exceeds the maximum length limit'')]\<rparr>)"
  by (simp add: suggest_try_def res_json_def)

lemma format_try_too_long:
  "truthy (get_own b ''text'') \<Longrightarrow> get_length (get_own b ''text'') = Inr len \<Longrightarrow>
   js_gt w len 32000 = Inr True \<Longrightarrow>
   format_try w g b =
     ([], Inr \<lparr>status = 400,
               body = [(''error'', JStr ''Text too long''),
                       (''message'', JStr ''The provided text exceeds the maximum length limit'')]\<rparr>)"
  by (simp add: format_try_def res_json_def)

lemma suggest_try_provider:
  "reaches_provider w b str \<Longrightarrow>
   suggest_try w g b =
     (case create w g (suggest_params str) of
        Inl err \<Rightarrow> ([ChatCompletionsCreate g (suggest_params str)], Inl err)
      | Inr c \<Rightarrow>
          (case first_content c of
             None \<Rightarrow> ([ChatCompletionsCreate g (suggest_params str)],
                      Inl (Thrown (JStr ''No suggestion generated'')))
           | Some x \<Rightarrow>
               if x = [] then ([ChatCompletionsCreate g (suggest_params str)],
                               Inl (Thrown (JStr ''No suggestion generated'')))
               else ([ChatCompletionsCreate g (suggest_params str)],
                     Inr \<lparr>status = 200, body = [(''suggestion'', JStr x)]\<rparr>)))"
  by (auto simp: reaches_provider_def suggest_try_def res_json_def Let_def split: sum.splits option.splits)

lemma format_try_provider:
  "reaches_provider w b str \<Longrightarrow>
   format_try w g b =
     (case create w g (format_params str) of
        Inl err \<Rightarrow> ([ChatCompletionsCreate g (format_params str)], Inl err)
      | Inr c \<Rightarrow>
          (case first_content c of
             None \<Rightarrow> ([ChatCompletionsCreate g (format_params str)],
                      Inl (Thrown (JStr ''No formatted text generated'')))
           | Some x \<Rightarrow>
               if x = [] then ([ChatCompletionsCreate g (format_params str)],
                               Inl (Thrown (JStr ''No formatted text generated'')))
               else ([ChatCompletionsCreate g (format_params str)],
                     Inr \<lparr>status = 200, body = [(''formattedText'', JStr x)]\<rparr>)))"
  by (auto simp: reaches_provider_def format_try_def res_json_def Let_def split: sum.splits option.splits)

lemma string_reaches_provider:
  "get_own b ''text'' = JStr t \<Longrightarrow> t \<noteq> [] \<Longrightarrow> length t \<le> 32000 \<Longrightarrow> reaches_provider w b t"
  by (simp add: reaches_provider_def js_gt_def)

lemma isRetryableError_string:
  "isRetryableError (JStr m) =
     Inr (JBool (contains m ''timeout'' \<or> contains m ''rate limit'' \<or> contains m ''connection''))"
  by (simp add: isRetryableError_def contains_str_includes)

lemma isRetryableError_absent: "isRetryableError JUndefined = Inr JUndefined"
  by (simp add: isRetryableError_def)

lemma suggest_catch_string:
  "suggest_catch (Thrown (JStr m)) =
     ([ConsoleError [LogStr ''Error generating suggestion:'', LogErr (Thrown (JStr m))]],
      Sent \<lparr>status = (if retryable_message m then 503 else 500),
            body = [(''error'', JStr ''AI service error''),
                    (''message'', JStr (if m = [] then ''Failed to generate suggestion'' else m)),
                    (''retryable'', JBool (retryable_message m))]\<rparr>)"
  by (simp add: suggest_catch_def isRetryableError_string retryable_message_def res_json_def js_or_def)

lemma format_catch_string:
  "format_catch (Thrown (JStr m)) =
     ([ConsoleError [LogStr ''Error formatting text:'', LogErr (Thrown (JStr m))]],
      Sent \<lparr>status = (if retryable_message m then 503 else 500),
            body = [(''error'', JStr ''AI service error''),
                    (''message'', JStr (if m = [] then ''Failed to format text'' else m)),
                    (''retryable'', JBool (retryable_message m))]\<rparr>)"
  by (simp add: format_catch_def isRetryableError_string retryable_message_def res_json_def js_or_def)

lemma suggest_catch_absent:
  "suggest_catch (Thrown JUndefined) =
     ([ConsoleError [LogStr ''Error generating suggestion:'', LogErr (Thrown JUndefined)]],
      Sent \<lparr>status = 500,
            body = [(''error'', JStr ''AI service error''),
                    (''message'', JStr ''Failed to generate suggestion'')]\<rparr>)"
  by (simp add: suggest_catch_def isRetryableError_absent res_json_def js_or_def)

lemma format_catch_absent:
  "format_catch (Thrown JUndefined) =
     ([ConsoleError [LogStr ''Error formatting text:'', LogErr (Thrown JUndefined)]],
      Sent \<lparr>status = 500,
            body = [(''error'', JStr ''AI service error''),
                    (''message'', JStr ''Failed to format text'')]\<rparr>)"
  by (simp add: format_catch_def isRetryableError_absent res_json_def js_or_def)

lemma suggest_catch_status:
  "suggest_catch err = (ev, Sent resp) \<Longrightarrow> status resp = 500 \<or> status resp = 503"
  by (auto simp: suggest_catch_def Let_def split: sum.splits if_splits)

lemma format_catch_status:
  "format_catch err = (ev, Sent resp) \<Longrightarrow> status resp = 500 \<or> status resp = 503"
  by (auto simp: format_catch_def Let_def split: sum.splits if_splits)

lemma api_suggest_after_provider:
  assumes "ensure_client w s = (s1, ev1)" and "groq s1 = Some g" and "reaches_provider w b str"
  shows "\<exists>ev out. api_suggest w s b = (s1, ev1 @ ChatCompletionsCreate g (suggest_params str) # ev, out) \<and>
           (\<forall>resp. out = Sent resp \<longrightarrow> status resp \<noteq> 400)"
proof -
  obtain ev2 r where t: "suggest_try w g b = (ev2, r)" by (cases "suggest_try w g b")
  from t suggest_try_provider [OF assms(3), of g]
  have ev2: "ev2 = [ChatCompletionsCreate g (suggest_params str)]"
    and r: "\<forall>resp. r = Inr resp \<longrightarrow> status resp = 200"
    by (auto split: sum.splits option.splits if_splits)
  show ?thesis
  proof (cases r)
    case (Inr resp)
    with t assms ev2 r show ?thesis
      by (simp add: api_suggest_sent)
  next
    case (Inl err)
    obtain ev3 out where c: "suggest_catch err = (ev3, out)" by (cases "suggest_catch err")
    from api_suggest_caught [OF assms(1,2) _ c, of b ev2] t Inl
    have "api_suggest w s b = (s1, ev1 @ ev2 @ ev3, out)" by simp
    moreover have "\<forall>resp. out = Sent resp \<longrightarrow> status resp \<noteq> 400"
      using suggest_catch_status [of err ev3] c by auto
    ultimately show ?thesis using ev2 by simp
  qed
qed

lemma api_format_after_provider:
  assumes "ensure_client w s = (s1, ev1)" and "groq s1 = Some g" and "reaches_provider w b str"
  shows "\<exists>ev out. api_format w s b = (s1, ev1 @ ChatCompletionsCreate g (format_params str) # ev, out) \<and>
           (\<forall>resp. out = Sent resp \<longrightarrow> status resp \<noteq> 400)"
proof -
  obtain ev2 r where t: "format_try w g b = (ev2, r)" by (cases "format_try w g b")
  from t format_try_provider [OF assms(3), of g]
  have ev2: "ev2 = [ChatCompletionsCreate g (format_params str)]"
    and r: "\<forall>resp. r = Inr resp \<longrightarrow> status resp = 200"
    by (auto split: sum.splits option.splits if_splits)
  show ?thesis
  proof (cases r)
    case (Inr resp)
    with t assms ev2 r show ?thesis
      by (simp add: api_format_sent)
  next
    case (Inl err)
    obtain ev3 out where c: "format_catch err = (ev3, out)" by (cases "format_catch err")
    from api_format_caught [OF assms(1,2) _ c, of b ev2] t Inl
    have "api_format w s b = (s1, ev1 @ ev2 @ ev3, out)" by simp
    moreover have "\<forall>resp. out = Sent resp \<longrightarrow> status resp \<noteq> 400"
      using format_catch_status [of err ev3] c by auto
    ultimately show ?thesis using ev2 by simp
  qed
qed








lemma initializeGroq_failure_state:
  "initializeGroq w s = (False, s1, ev) \<Longrightarrow> s1 = s"
  by (auto simp: initializeGroq_def split: sum.splits)

lemma initializeGroq_success_client:
  "initializeGroq w s = (True, s1, ev) \<Longrightarrow> groq s1 \<noteq> None"
  by (auto simp: initializeGroq_def initializeGroq_try_def Let_def
      split: sum.splits option.splits if_splits)

lemma initializeGroq_try_failure_any_state:
  "initializeGroq_try w s = Inl m \<Longrightarrow> initializeGroq_try w s' = Inl m"
  by (auto simp: initializeGroq_try_def Let_def split: option.splits if_splits sum.splits)

lemma initializeGroq_failing:
  "initializeGroq_try w s0 = Inl m \<Longrightarrow>
   initializeGroq w s = (False, s, [ConsoleError [LogStr ''Failed to initialize Groq:'', LogStr m]])"
  using initializeGroq_try_failure_any_state [of w s0 m s] by (simp add: initializeGroq_def)

lemma retry_failing_from:
  assumes "initializeGroq_try w s0 = Inl m"
  shows "n \<le> 3 \<Longrightarrow>
         initializeGroqWithRetry w \<lparr>groq = None, initializationAttempts = n\<rparr> =
           (\<lparr>groq = None, initializationAttempts = 3\<rparr>,
            concat (map (\<lambda>k. [ConsoleError [LogStr ''Failed to initialize Groq:'', LogStr m],
                               SetTimeout (1000 * k)]) [Suc n ..< 4]))"
proof (induction "3 - n" arbitrary: n)
  case 0
  then have "n = 3" by simp
  then show ?case
    by (simp add: retry_guard_false MAX_INITIALIZATION_ATTEMPTS_def)
next
  case (Suc d)
  then have n: "n < 3" and d: "d = 3 - Suc n" and le: "Suc n \<le> 3" by simp_all
  have f: "initializeGroq w \<lparr>groq = None, initializationAttempts = n\<rparr> =
             (False, \<lparr>groq = None, initializationAttempts = n\<rparr>,
              [ConsoleError [LogStr ''Failed to initialize Groq:'', LogStr m]])"
    by (rule initializeGroq_failing [OF assms])
  have u: "[Suc n ..< 4] = Suc n # [Suc (Suc n) ..< 4]"
    using n by (simp add: upt_conv_Cons)
  show ?case
    using retry_failure [OF _ _ f] n Suc.hyps(1) [OF d le]
    by (simp add: MAX_INITIALIZATION_ATTEMPTS_def u)
qed

lemma handle_exhausted:
  assumes "MAX_INITIALIZATION_ATTEMPTS \<le> initializationAttempts s" and "groq s = None"
  shows "handle w s r = (s, [], exhausted_outcome s (w, r))"
proof -
  have "ensure_client w s = (s, [])"
    using assms by (simp add: ensure_client_def retry_guard_false)
  then show ?thesis
    using assms(2) by (cases r) (simp_all add: api_suggest_unavailable api_format_unavailable)
qed

lemma retry_attempts_mono:
  "initializationAttempts s \<le> initializationAttempts (fst (initializeGroqWithRetry w s))"
proof (induction w s rule: initializeGroqWithRetry.induct)
  case (1 w s)
  show ?case
  proof (cases "initializationAttempts s < MAX_INITIALIZATION_ATTEMPTS \<and> groq s = None")
    case False
    then show ?thesis by (simp add: retry_guard_false)
  next
    case True
    obtain ok s1 ev where i: "initializeGroq w s = (ok, s1, ev)"
      by (cases "initializeGroq w s")
    have a: "initializationAttempts s1 = initializationAttempts s"
      using i by (rule initializeGroq_attempts)
    show ?thesis
    proof (cases ok)
      case True
      with \<open>initializationAttempts s < MAX_INITIALIZATION_ATTEMPTS \<and> groq s = None\<close> i a
      show ?thesis by (simp add: retry_success)
    next
      case False
      from "1.IH" [OF \<open>initializationAttempts s < MAX_INITIALIZATION_ATTEMPTS \<and> groq s = None\<close>
          i [symmetric] refl False refl]
      have "initializationAttempts s1 + 1 \<le>
            initializationAttempts (fst (initializeGroqWithRetry w
              (s1\<lparr>initializationAttempts := initializationAttempts s1 + 1\<rparr>)))"
        by simp
      moreover have "initializeGroqWithRetry w s =
        (case initializeGroqWithRetry w (s1\<lparr>initializationAttempts := initializationAttempts s1 + 1\<rparr>) of
           (s3, ev3) \<Rightarrow> (s3, ev @ [SetTimeout (1000 * (initializationAttempts s1 + 1))] @ ev3))"
        using \<open>initializationAttempts s < MAX_INITIALIZATION_ATTEMPTS \<and> groq s = None\<close> i False
        by (simp add: retry_failure)
      ultimately show ?thesis using a by (simp split: prod.splits)
    qed
  qed
qed

lemma handle_attempts_mono:
  "initializationAttempts s \<le> initializationAttempts (fst (handle w s r))"
proof -
  have e: "initializationAttempts s \<le> initializationAttempts (fst (ensure_client w s))"
    using retry_attempts_mono [of s w] by (simp add: ensure_client_def)
  show ?thesis
  proof (cases r)
    case GetHealth
    then show ?thesis by simp
  next
    case (PostSuggest b)
    with e show ?thesis
      by (auto simp: api_suggest_def split: prod.splits option.splits sum.splits)
  next
    case (PostFormat b)
    with e show ?thesis
      by (auto simp: api_format_def split: prod.splits option.splits sum.splits)
  qed
qed

lemma serve_attempts_mono:
  "initializationAttempts s \<le> initializationAttempts (fst (serve s reqs))"
proof (induction reqs arbitrary: s)
  case Nil
  show ?case by simp
next
  case (Cons wr reqs)
  obtain w r where wr: "wr = (w, r)" by (cases wr)
  obtain s1 ev1 out where h: "handle w s r = (s1, ev1, out)" by (cases "handle w s r")
  have "initializationAttempts s \<le> initializationAttempts s1"
    using handle_attempts_mono [of s w r] h by simp
  also have "\<dots> \<le> initializationAttempts (fst (serve s1 reqs))" by (rule Cons.IH)
  finally show ?case by (auto simp: wr h split: prod.splits)
qed

subsection \<open>The health endpoint\<close>

text \<open>
  Claim C6. GET /health always answers with status 200 and the body
  {server: "healthy", aiService, aiError, timestamp}. When the client handle is present,
  aiService is "available" and aiError is null; when it is absent, aiService is "unavailable"
  and aiError is the string "AI service not initialized after N attempts" with N the current
  attempt count. The handler changes no state and has no other outcome.
\<close>

theorem health_always_200:
  "handle w s GetHealth = (s, [], Sent (health w s)) \<and>
   status (health w s) = 200 \<and>
   (groq s \<noteq> None \<longrightarrow>
      body (health w s) =
        [(''server'', JStr ''healthy''), (''aiService'', JStr ''available''),
         (''aiError'', JNull), (''timestamp'', JStr (now_iso w))]) \<and>
   (groq s = None \<longrightarrow>
      body (health w s) =
        [(''server'', JStr ''healthy''), (''aiService'', JStr ''unavailable''),
         (''aiError'', JStr (''AI service not initialized after '' @
                            nat_to_string (initializationAttempts s) @ '' attempts'')),
         (''timestamp'', JStr (now_iso w))])"
  by (simp add: health_def res_json_def)

theorem health_always_200_witness:
  "body (health demo_world ready_state) =
     [(''server'', JStr ''healthy''), (''aiService'', JStr ''available''),
      (''aiError'', JNull), (''timestamp'', JStr ''2024-05-01T12:00:00.000Z'')] \<and>
   body (health no_key_world exhausted_state) =
     [(''server'', JStr ''healthy''), (''aiService'', JStr ''unavailable''),
      (''aiError'', JStr ''AI service not initialized after 3 attempts''),
      (''timestamp'', JStr ''2024-05-01T12:00:00.000Z'')]"
  using health_always_200 [of demo_world ready_state]
        health_always_200 [of no_key_world exhausted_state]
  by (simp add: demo_world_def no_key_world_def ready_state_def exhausted_state_def digit_char_def)

subsection \<open>Classification of provider errors\<close>

text \<open>
  Claim C1. For both POST /api/suggest and POST /api/format: when the provider call throws
  an error whose message is the string m, the handler logs it and answers with the body
  {error: "AI service error", message, retryable}; the status is 503 and retryable is true
  if and only if m contains "timeout", "rate limit" or "connection" as a substring (compared
  code unit by code unit, hence case-sensitively), and otherwise the status is 500 and
  retryable is false. The message field is m, or the endpoint's fallback text when m is empty.
\<close>

theorem provider_error_classified:
  assumes "ensure_client w s = (s1, ev1)" and "groq s1 = Some g" and "reaches_provider w b str"
  shows
    "(create w g (suggest_params str) = Inl (Thrown (JStr m)) \<longrightarrow>
        api_suggest w s b =
          (s1,
           ev1 @ [ChatCompletionsCreate g (suggest_params str),
                  ConsoleError [LogStr ''Error generating suggestion:'', LogErr (Thrown (JStr m))]],
           Sent \<lparr>status = (if retryable_message m then 503 else 500),
                 body = [(''error'', JStr ''AI service error''),
                         (''message'', JStr (if m = [] then ''Failed to generate suggestion'' else m)),
                         (''retryable'', JBool (retryable_message m))]\<rparr>)) \<and>
     (create w g (format_params str) = Inl (Thrown (JStr m)) \<longrightarrow>
        api_format w s b =
          (s1,
           ev1 @ [ChatCompletionsCreate g (format_params str),
                  ConsoleError [LogStr ''Error formatting text:'', LogErr (Thrown (JStr m))]],
           Sent \<lparr>status = (if retryable_message m then 503 else 500),
                 body = [(''error'', JStr ''AI service error''),
                         (''message'', JStr (if m = [] then ''Failed to format text'' else m)),
                         (''retryable'', JBool (retryable_message m))]\<rparr>))"
proof (intro conjI impI)
  assume c: "create w g (suggest_params str) = Inl (Thrown (JStr m))"
  have "suggest_try w g b = ([ChatCompletionsCreate g (suggest_params str)], Inl (Thrown (JStr m)))"
    using suggest_try_provider [OF assms(3), of g] c by simp
  from api_suggest_caught [OF assms(1,2) this suggest_catch_string]
  show "api_suggest w s b =
          (s1,
           ev1 @ [ChatCompletionsCreate g (suggest_params str),
                  ConsoleError [LogStr ''Error generating suggestion:'', LogErr (Thrown (JStr m))]],
           Sent \<lparr>status = (if retryable_message m then 503 else 500),
                 body = [(''error'', JStr ''AI service error''),
                         (''message'', JStr (if m = [] then ''Failed to generate suggestion'' else m)),
                         (''retryable'', JBool (retryable_message m))]\<rparr>)"
    by simp
next
  assume c: "create w g (format_params str) = Inl (Thrown (JStr m))"
  have "format_try w g b = ([ChatCompletionsCreate g (format_params str)], Inl (Thrown (JStr m)))"
    using format_try_provider [OF assms(3), of g] c by simp
  from api_format_caught [OF assms(1,2) this format_catch_string]
  show "api_format w s b =
          (s1,
           ev1 @ [ChatCompletionsCreate g (format_params str),
                  ConsoleError [LogStr ''Error formatting text:'', LogErr (Thrown (JStr m))]],
           Sent \<lparr>status = (if retryable_message m then 503 else 500),
                 body = [(''error'', JStr ''AI service error''),
                         (''message'', JStr (if m = [] then ''Failed to format text'' else m)),
                         (''retryable'', JBool (retryable_message m))]\<rparr>)"
    by simp
qed

theorem provider_error_classified_witness:
  "snd (snd (api_suggest (throwing_world (Thrown (JStr ''Request timeout''))) ready_state
               [(''text'', JStr ''helo wrld'')])) =
     Sent \<lparr>status = 503,
           body = [(''error'', JStr ''AI service error''), (''message'', JStr ''Request timeout''),
                   (''retryable'', JBool True)]\<rparr> \<and>
   snd (snd (api_format (throwing_world (Thrown (JStr ''Invalid API Key''))) ready_state
               [(''text'', JStr ''helo wrld'')])) =
     Sent \<lparr>status = 500,
           body = [(''error'', JStr ''AI service error''), (''message'', JStr ''Invalid API Key''),
                   (''retryable'', JBool False)]\<rparr>"
  using provider_error_classified [of "throwing_world (Thrown (JStr ''Request timeout''))"
          ready_state ready_state "[]" demo_client "[(''text'', JStr ''helo wrld'')]" "''helo wrld''"
          "''Request timeout''"]
        provider_error_classified [of "throwing_world (Thrown (JStr ''Invalid API Key''))"
          ready_state ready_state "[]" demo_client "[(''text'', JStr ''helo wrld'')]" "''helo wrld''"
          "''Invalid API Key''"]
  by (simp add: ensure_client_def ready_state_def throwing_world_def demo_world_def
      reaches_provider_def get_own_def js_gt_def retryable_message_def contains_str_includes)

subsection \<open>Order of validation\<close>

text \<open>
  Claim C2. For POST /api/suggest and POST /api/format the checks apply in a fixed order and
  the first failing one decides the response: (1) if no client is present after the
  on-demand retry pass, the response is 503 "AI service unavailable" whatever the body;
  (2) otherwise, if text is missing or the empty string, the response is 400 "Missing text";
  (3) otherwise, if text is a string of more than 32000 code units, the response is 400
  "Text too long", while a string of exactly 32000 code units passes: the provider is called
  and the response is not a 400.
\<close>

theorem validation_order:
  assumes "ensure_client w s = (s1, ev1)"
  shows
    "(groq s1 = None \<longrightarrow>
        api_suggest w s b =
          (s1, ev1,
           Sent \<lparr>status = 503,
                 body = [(''error'', JStr ''AI service unavailable''),
                         (''message'', JStr ''The AI service is not properly initialized. Please try again later.'')]\<rparr>) \<and>
        api_format w s b =
          (s1, ev1,
           Sent \<lparr>status = 503,
                 body = [(''error'', JStr ''AI service unavailable''),
                         (''message'', JStr ''The AI service is not properly initialized. Please try again later.'')]\<rparr>)) \<and>
     (groq s1 \<noteq> None \<and> (get_own b ''text'' = JUndefined \<or> get_own b ''text'' = JStr []) \<longrightarrow>
        api_suggest w s b =
          (s1, ev1,
           Sent \<lparr>status = 400,
                 body = [(''error'', JStr ''Missing text''),
                         (''message'', JStr ''Please provide text to get suggestions'')]\<rparr>) \<and>
        api_format w s b =
          (s1, ev1,
           Sent \<lparr>status = 400,
                 body = [(''error'', JStr ''Missing text''),
                         (''message'', JStr ''Please provide text to format'')]\<rparr>)) \<and>
     (groq s1 \<noteq> None \<and> get_own b ''text'' = JStr t \<and> 32000 < length t \<longrightarrow>
        api_suggest w s b =
          (s1, ev1,
           Sent \<lparr>status = 400,
                 body = [(''error'', JStr ''Text too long''),
                         (''message'', JStr ''The provided text exceeds the maximum length limit'')]\<rparr>) \<and>
        api_format w s b =
          (s1, ev1,
           Sent \<lparr>status = 400,
                 body = [(''error'', JStr ''Text too long''),
                         (''message'', JStr ''The provided text exceeds the maximum length limit'')]\<rparr>)) \<and>
     (groq s1 = Some g \<and> get_own b ''text'' = JStr t \<and> length t = 32000 \<longrightarrow>
        (\<exists>ev out. api_suggest w s b = (s1, ev1 @ ChatCompletionsCreate g (suggest_params t) # ev, out) \<and>
                  (\<forall>resp. out = Sent resp \<longrightarrow> status resp \<noteq> 400)) \<and>
        (\<exists>ev out. api_format w s b = (s1, ev1 @ ChatCompletionsCreate g (format_params t) # ev, out) \<and>
                  (\<forall>resp. out = Sent resp \<longrightarrow> status resp \<noteq> 400)))"
proof (intro conjI impI)
  assume "groq s1 = None"
  then show "api_suggest w s b =
          (s1, ev1,
           Sent \<lparr>status = 503,
                 body = [(''error'', JStr ''AI service unavailable''),
                         (''message'', JStr ''The AI service is not properly initialized. Please try again later.'')]\<rparr>)"
    using assms by (rule api_suggest_unavailable [rotated])
next
  assume "groq s1 = None"
  then show "api_format w s b =
          (s1, ev1,
           Sent \<lparr>status = 503,
                 body = [(''error'', JStr ''AI service unavailable''),
                         (''message'', JStr ''The AI service is not properly initialized. Please try again later.'')]\<rparr>)"
    using assms by (rule api_format_unavailable [rotated])
next
  assume a: "groq s1 \<noteq> None \<and> (get_own b ''text'' = JUndefined \<or> get_own b ''text'' = JStr [])"
  then obtain g' where g': "groq s1 = Some g'" by auto
  from a have f: "\<not> truthy (get_own b ''text'')" by auto
  show "api_suggest w s b =
          (s1, ev1,
           Sent \<lparr>status = 400,
                 body = [(''error'', JStr ''Missing text''),
                         (''message'', JStr ''Please provide text to get suggestions'')]\<rparr>)"
    using api_suggest_sent [OF assms g' suggest_try_missing [OF f]] by simp
  show "api_format w s b =
          (s1, ev1,
           Sent \<lparr>status = 400,
                 body = [(''error'', JStr ''Missing text''),
                         (''message'', JStr ''Please provide text to format'')]\<rparr>)"
    using api_format_sent [OF assms g' format_try_missing [OF f]] by simp
next
  assume a: "groq s1 \<noteq> None \<and> get_own b ''text'' = JStr t \<and> 32000 < length t"
  then obtain g' where g': "groq s1 = Some g'" by auto
  from a have tr: "truthy (get_own b ''text'')" by auto
  from a have len: "get_length (get_own b ''text'') = Inr (JNum (of_nat (length t)))" by simp
  from a have gt: "js_gt w (JNum (of_nat (length t))) 32000 = Inr True"
    by (simp add: js_gt_def)
  show "api_suggest w s b =
          (s1, ev1,
           Sent \<lparr>status = 400,
                 body = [(''error'', JStr ''Text too long''),
                         (''message'', JStr ''The provided text exceeds the maximum length limit'')]\<rparr>)"
    using api_suggest_sent [OF assms g' suggest_try_too_long [OF tr len gt]] by simp
  show "api_format w s b =
          (s1, ev1,
           Sent \<lparr>status = 400,
                 body = [(''error'', JStr ''Text too long''),
                         (''message'', JStr ''The provided text exceeds the maximum length limit'')]\<rparr>)"
    using api_format_sent [OF assms g' format_try_too_long [OF tr len gt]] by simp
next
  assume a: "groq s1 = Some g \<and> get_own b ''text'' = JStr t \<and> length t = 32000"
  then have g: "groq s1 = Some g" and rp: "reaches_provider w b t"
    by (auto intro!: string_reaches_provider)
  show "\<exists>ev out. api_suggest w s b = (s1, ev1 @ ChatCompletionsCreate g (suggest_params t) # ev, out) \<and>
                  (\<forall>resp. out = Sent resp \<longrightarrow> status resp \<noteq> 400)"
    by (rule api_suggest_after_provider [OF assms g rp])
  show "\<exists>ev out. api_format w s b = (s1, ev1 @ ChatCompletionsCreate g (format_params t) # ev, out) \<and>
                  (\<forall>resp. out = Sent resp \<longrightarrow> status resp \<noteq> 400)"
    by (rule api_format_after_provider [OF assms g rp])
qed

theorem validation_order_witness:
  "api_suggest no_key_world exhausted_state [] =
     (exhausted_state, [],
      Sent \<lparr>status = 503,
            body = [(''error'', JStr ''AI service unavailable''),
                    (''message'', JStr ''The AI service is not properly initialized. Please try again later.'')]\<rparr>) \<and>
   api_format demo_world ready_state [(''text'', JStr [])] =
     (ready_state, [],
      Sent \<lparr>status = 400,
            body = [(''error'', JStr ''Missing text''),
                    (''message'', JStr ''Please provide text to format'')]\<rparr>) \<and>
   api_suggest demo_world ready_state [(''text'', JStr (replicate 32001 CHR ''a''))] =
     (ready_state, [],
      Sent \<lparr>status = 400,
            body = [(''error'', JStr ''Text too long''),
                    (''message'', JStr ''The provided text exceeds the maximum length limit'')]\<rparr>) \<and>
   (\<exists>ev out. api_suggest demo_world ready_state [(''text'', JStr (replicate 32000 CHR ''a''))] =
       (ready_state, ChatCompletionsCreate demo_client (suggest_params (replicate 32000 CHR ''a'')) # ev, out) \<and>
       (\<forall>resp. out = Sent resp \<longrightarrow> status resp \<noteq> 400))"
  using validation_order [of no_key_world exhausted_state exhausted_state "[]" "[]" "[]" demo_client]
        validation_order [of demo_world ready_state ready_state "[]" "[(''text'', JStr [])]" "[]" demo_client]
        validation_order [of demo_world ready_state ready_state "[]"
          "[(''text'', JStr (replicate 32001 CHR ''a''))]" "replicate 32001 CHR ''a''" demo_client]
        validation_order [of demo_world ready_state ready_state "[]"
          "[(''text'', JStr (replicate 32000 CHR ''a''))]" "replicate 32000 CHR ''a''" demo_client]
  by (simp add: ensure_client_def retry_guard_false MAX_INITIALIZATION_ATTEMPTS_def
      exhausted_state_def ready_state_def get_own_def)

subsection \<open>Successful provider calls\<close>



subsection \<open>Empty provider answers\<close>

text \<open>
  Claim C7. For /api/suggest, when the provider call succeeds but the content of the first
  choice's message is absent or empty, the handler throws an Error with message
  "No suggestion generated" into its own catch clause; that message contains none of the
  three trigger substrings, so the response is 500 with retryable false.
\<close>

theorem empty_suggestion_is_500:
  assumes "ensure_client w s = (s1, ev1)" and "groq s1 = Some g" and "reaches_provider w b str"
    and "create w g (suggest_params str) = Inr c"
    and "first_content c = None \<or> first_content c = Some []"
  shows
    "api_suggest w s b =
       (s1,
        ev1 @ [ChatCompletionsCreate g (suggest_params str),
               ConsoleError [LogStr ''Error generating suggestion:'',
                             LogErr (Thrown (JStr ''No suggestion generated''))]],
        Sent \<lparr>status = 500,
              body = [(''error'', JStr ''AI service error''),
                      (''message'', JStr ''No suggestion generated''),
                      (''retryable'', JBool False)]\<rparr>) \<and>
     \<not> retryable_message ''No suggestion generated''"
proof -
  have nr: "\<not> retryable_message ''No suggestion generated''"
    by (simp add: retryable_message_def contains_str_includes)
  have "suggest_try w g b =
          ([ChatCompletionsCreate g (suggest_params str)], Inl (Thrown (JStr ''No suggestion generated'')))"
    using suggest_try_provider [OF assms(3), of g] assms(4,5) by auto
  from api_suggest_caught [OF assms(1,2) this suggest_catch_string] nr
  show ?thesis by simp
qed

theorem empty_suggestion_is_500_witness:
  "snd (snd (api_suggest (answering_world \<lparr>choices = [\<lparr>message = Some (Some [])\<rparr>]\<rparr>) ready_state
               [(''text'', JStr ''helo wrld'')])) =
     Sent \<lparr>status = 500,
           body = [(''error'', JStr ''AI service error''),
                   (''message'', JStr ''No suggestion generated''),
                   (''retryable'', JBool False)]\<rparr> \<and>
   snd (snd (api_suggest (answering_world \<lparr>choices = []\<rparr>) ready_state
               [(''text'', JStr ''helo wrld'')])) =
     Sent \<lparr>status = 500,
           body = [(''error'', JStr ''AI service error''),
                   (''message'', JStr ''No suggestion generated''),
                   (''retryable'', JBool False)]\<rparr>"
  using empty_suggestion_is_500 [of "answering_world \<lparr>choices = [\<lparr>message = Some (Some [])\<rparr>]\<rparr>"
          ready_state ready_state "[]" demo_client "[(''text'', JStr ''helo wrld'')]" "''helo wrld''"
          "\<lparr>choices = [\<lparr>message = Some (Some [])\<rparr>]\<rparr>"]
        empty_suggestion_is_500 [of "answering_world \<lparr>choices = []\<rparr>"
          ready_state ready_state "[]" demo_client "[(''text'', JStr ''helo wrld'')]" "''helo wrld''"
          "\<lparr>choices = []\<rparr>"]
  by (simp add: ensure_client_def ready_state_def answering_world_def demo_world_def
      reaches_provider_def get_own_def js_gt_def first_content_def)

subsection \<open>Thrown values without a message\<close>

text \<open>
  Claim C10. When the value thrown by the provider call has no message property, both
  endpoints answer 500; the message of the response falls back to
  "Failed to generate suggestion" (suggest) or "Failed to format text" (format); the
  classification evaluates to undefined, not to false, so the serialized body has no
  retryable field.
\<close>

theorem thrown_without_message:
  assumes "ensure_client w s = (s1, ev1)" and "groq s1 = Some g" and "reaches_provider w b str"
  shows
    "isRetryableError JUndefined = Inr JUndefined \<and>
     (create w g (suggest_params str) = Inl (Thrown JUndefined) \<longrightarrow>
        api_suggest w s b =
          (s1,
           ev1 @ [ChatCompletionsCreate g (suggest_params str),
                  ConsoleError [LogStr ''Error generating suggestion:'', LogErr (Thrown JUndefined)]],
           Sent \<lparr>status = 500,
                 body = [(''error'', JStr ''AI service error''),
                         (''message'', JStr ''Failed to generate suggestion'')]\<rparr>)) \<and>
     (create w g (format_params str) = Inl (Thrown JUndefined) \<longrightarrow>
        api_format w s b =
          (s1,
           ev1 @ [ChatCompletionsCreate g (format_params str),
                  ConsoleError [LogStr ''Error formatting text:'', LogErr (Thrown JUndefined)]],
           Sent \<lparr>status = 500,
                 body = [(''error'', JStr ''AI service error''),
                         (''message'', JStr ''Failed to format text'')]\<rparr>))"
proof (intro conjI impI)
  show "isRetryableError JUndefined = Inr JUndefined"
    by (rule isRetryableError_absent)
next
  assume c: "create w g (suggest_params str) = Inl (Thrown JUndefined)"
  have "suggest_try w g b = ([ChatCompletionsCreate g (suggest_params str)], Inl (Thrown JUndefined))"
    using suggest_try_provider [OF assms(3), of g] c by simp
  from api_suggest_caught [OF assms(1,2) this suggest_catch_absent]
  show "api_suggest w s b =
          (s1,
           ev1 @ [ChatCompletionsCreate g (suggest_params str),
                  ConsoleError [LogStr ''Error generating suggestion:'', LogErr (Thrown JUndefined)]],
           Sent \<lparr>status = 500,
                 body = [(''error'', JStr ''AI service error''),
                         (''message'', JStr ''Failed to generate suggestion'')]\<rparr>)"
    by simp
next
  assume c: "create w g (format_params str) = Inl (Thrown JUndefined)"
  have "format_try w g b = ([ChatCompletionsCreate g (format_params str)], Inl (Thrown JUndefined))"
    using format_try_provider [OF assms(3), of g] c by simp
  from api_format_caught [OF assms(1,2) this format_catch_absent]
  show "api_format w s b =
          (s1,
           ev1 @ [ChatCompletionsCreate g (format_params str),
                  ConsoleError [LogStr ''Error formatting text:'', LogErr (Thrown JUndefined)]],
           Sent \<lparr>status = 500,
                 body = [(''error'', JStr ''AI service error''),
                         (''message'', JStr ''Failed to format text'')]\<rparr>)"
    by simp
qed

theorem thrown_without_message_witness:
  "snd (snd (api_suggest (throwing_world (Thrown JUndefined)) ready_state [(''text'', JStr ''helo wrld'')])) =
     Sent \<lparr>status = 500,
           body = [(''error'', JStr ''AI service error''),
                   (''message'', JStr ''Failed to generate suggestion'')]\<rparr> \<and>
   snd (snd (api_format (throwing_world (Thrown JUndefined)) ready_state [(''text'', JStr ''helo wrld'')])) =
     Sent \<lparr>status = 500,
           body = [(''error'', JStr ''AI service error''),
                   (''message'', JStr ''Failed to format text'')]\<rparr>"
  using thrown_without_message [of "throwing_world (Thrown JUndefined)"
          ready_state ready_state "[]" demo_client "[(''text'', JStr ''helo wrld'')]" "''helo wrld''"]
  by (simp add: ensure_client_def ready_state_def throwing_world_def demo_world_def
      reaches_provider_def get_own_def js_gt_def)

subsection \<open>Text that is not a string\<close>




subsection \<open>Client lifecycle\<close>

text \<open>
  Claim C8. initializeGroq never lets an exception escape. When the API key is absent from
  the environment (undefined or empty) the Error thrown inside the try block is caught: the
  cause is logged and false is returned, with the state unchanged. When the key is present
  and the constructor succeeds, the client built with the key and a timeout of 30000 ms is
  stored as the shared handle and true is returned. When the constructor throws, that too is
  caught, logged and answered with false.
\<close>

theorem initializeGroq_never_throws:
  "((GROQ_API_KEY w = None \<or> GROQ_API_KEY w = Some []) \<longrightarrow>
      initializeGroq_try w s = Inl ''GROQ_API_KEY is not set in environment variables'' \<and>
      initializeGroq w s =
        (False, s,
         [ConsoleError [LogStr ''Failed to initialize Groq:'',
                        LogStr ''GROQ_API_KEY is not set in environment variables'']])) \<and>
   (GROQ_API_KEY w = Some k \<and> k \<noteq> [] \<and> Groq_throws w \<lparr>apiKey = k, timeout = 30000\<rparr> = None \<longrightarrow>
      initializeGroq w s =
        (True, s\<lparr>groq := Some (Client \<lparr>apiKey = k, timeout = 30000\<rparr>)\<rparr>,
         [NewGroq \<lparr>apiKey = k, timeout = 30000\<rparr>,
          ConsoleLog [LogStr ''Groq AI service initialized successfully'']])) \<and>
   (GROQ_API_KEY w = Some k \<and> k \<noteq> [] \<and> Groq_throws w \<lparr>apiKey = k, timeout = 30000\<rparr> = Some e \<longrightarrow>
      initializeGroq w s =
        (False, s, [ConsoleError [LogStr ''Failed to initialize Groq:'', LogStr e]]))"
  by (auto simp: initializeGroq_def initializeGroq_try_def Groq_new_def Let_def)

theorem initializeGroq_never_throws_witness:
  "initializeGroq no_key_world initial_state =
     (False, initial_state,
      [ConsoleError [LogStr ''Failed to initialize Groq:'',
                     LogStr ''GROQ_API_KEY is not set in environment variables'']]) \<and>
   initializeGroq demo_world initial_state =
     (True, \<lparr>groq = Some (Client \<lparr>apiKey = ''gsk_demo'', timeout = 30000\<rparr>), initializationAttempts = 0\<rparr>,
      [NewGroq \<lparr>apiKey = ''gsk_demo'', timeout = 30000\<rparr>,
       ConsoleLog [LogStr ''Groq AI service initialized successfully'']])"
  using initializeGroq_never_throws [of no_key_world initial_state "[]"]
        initializeGroq_never_throws [of demo_world initial_state "''gsk_demo''"]
  by (simp add: no_key_world_def demo_world_def initial_state_def)

text \<open>
  Claim C4. initializeGroqWithRetry loops while no client exists and the attempt counter is
  below 3. When the guard fails it returns at once, silently and without touching the state.
  Otherwise it calls initializeGroq: on success it stops with the client set and the counter
  unchanged; on failure it increments the counter, arms a timer of 1000 ms times the new
  counter value, and continues with the loop. In a process where initialization fails, the
  call made at start-up logs three failures, waits 1000, 2000 and 3000 ms after them, and
  returns with the counter at 3 and the client absent.
\<close>

theorem retry_loop:
  "(\<not> (initializationAttempts s < MAX_INITIALIZATION_ATTEMPTS \<and> groq s = None) \<longrightarrow>
      initializeGroqWithRetry w s = (s, [])) \<and>
   (initializationAttempts s < MAX_INITIALIZATION_ATTEMPTS \<and> groq s = None \<and>
    initializeGroq w s = (True, s1, ev) \<longrightarrow>
      initializeGroqWithRetry w s = (s1, ev) \<and> groq s1 \<noteq> None \<and>
      initializationAttempts s1 = initializationAttempts s) \<and>
   (initializationAttempts s < MAX_INITIALIZATION_ATTEMPTS \<and> groq s = None \<and>
    initializeGroq w s = (False, s1, ev) \<longrightarrow>
      (\<exists>s3 ev3.
         initializeGroqWithRetry w (s\<lparr>initializationAttempts := initializationAttempts s + 1\<rparr>) = (s3, ev3) \<and>
         initializeGroqWithRetry w s =
           (s3, ev @ [SetTimeout (1000 * (initializationAttempts s + 1))] @ ev3))) \<and>
   (initializeGroq_try w initial_state = Inl m \<longrightarrow>
      startup w =
        (\<lparr>groq = None, initializationAttempts = 3\<rparr>,
         [ConsoleError [LogStr ''Failed to initialize Groq:'', LogStr m], SetTimeout 1000,
          ConsoleError [LogStr ''Failed to initialize Groq:'', LogStr m], SetTimeout 2000,
          ConsoleError [LogStr ''Failed to initialize Groq:'', LogStr m], SetTimeout 3000])) \<and>
   MAX_INITIALIZATION_ATTEMPTS = 3"
proof (intro conjI impI)
  assume "\<not> (initializationAttempts s < MAX_INITIALIZATION_ATTEMPTS \<and> groq s = None)"
  then show "initializeGroqWithRetry w s = (s, [])" by (rule retry_guard_false)
next
  assume a: "initializationAttempts s < MAX_INITIALIZATION_ATTEMPTS \<and> groq s = None \<and>
    initializeGroq w s = (True, s1, ev)"
  then show "initializeGroqWithRetry w s = (s1, ev)" by (simp add: retry_success)
  from a show "groq s1 \<noteq> None" by (blast dest: initializeGroq_success_client)
  from a show "initializationAttempts s1 = initializationAttempts s"
    by (blast dest: initializeGroq_attempts)
next
  assume a: "initializationAttempts s < MAX_INITIALIZATION_ATTEMPTS \<and> groq s = None \<and>
    initializeGroq w s = (False, s1, ev)"
  then have s1: "s1 = s" by (blast dest: initializeGroq_failure_state)
  obtain s3 ev3 where
    r: "initializeGroqWithRetry w (s\<lparr>initializationAttempts := initializationAttempts s + 1\<rparr>) = (s3, ev3)"
    by (cases "initializeGroqWithRetry w (s\<lparr>initializationAttempts := initializationAttempts s + 1\<rparr>)")
  from a s1 have "initializeGroqWithRetry w s =
      (s3, ev @ [SetTimeout (1000 * (initializationAttempts s + 1))] @ ev3)"
    using retry_failure [of s w s ev] r by simp
  with r show "\<exists>s3 ev3.
         initializeGroqWithRetry w (s\<lparr>initializationAttempts := initializationAttempts s + 1\<rparr>) = (s3, ev3) \<and>
         initializeGroqWithRetry w s =
           (s3, ev @ [SetTimeout (1000 * (initializationAttempts s + 1))] @ ev3)"
    by blast
next
  assume "initializeGroq_try w initial_state = Inl m"
  from retry_failing_from [OF this, of 0]
  show "startup w =
        (\<lparr>groq = None, initializationAttempts = 3\<rparr>,
         [ConsoleError [LogStr ''Failed to initialize Groq:'', LogStr m], SetTimeout 1000,
          ConsoleError [LogStr ''Failed to initialize Groq:'', LogStr m], SetTimeout 2000,
          ConsoleError [LogStr ''Failed to initialize Groq:'', LogStr m], SetTimeout 3000])"
    by (simp add: startup_def initial_state_def upt_rec)
next
  show "MAX_INITIALIZATION_ATTEMPTS = 3" by (rule MAX_INITIALIZATION_ATTEMPTS_def)
qed

theorem retry_loop_witness:
  "startup no_key_world =
     (exhausted_state,
      [ConsoleError [LogStr ''Failed to initialize Groq:'',
                     LogStr ''GROQ_API_KEY is not set in environment variables''], SetTimeout 1000,
       ConsoleError [LogStr ''Failed to initialize Groq:'',
                     LogStr ''GROQ_API_KEY is not set in environment variables''], SetTimeout 2000,
       ConsoleError [LogStr ''Failed to initialize Groq:'',
                     LogStr ''GROQ_API_KEY is not set in environment variables''], SetTimeout 3000]) \<and>
   startup demo_world =
     (\<lparr>groq = Some demo_client, initializationAttempts = 0\<rparr>,
      [NewGroq \<lparr>apiKey = ''gsk_demo'', timeout = 30000\<rparr>,
       ConsoleLog [LogStr ''Groq AI service initialized successfully'']]) \<and>
   initializeGroqWithRetry demo_world exhausted_state = (exhausted_state, [])"
proof (intro conjI)
  have k: "initializeGroq_try no_key_world initial_state =
             Inl ''GROQ_API_KEY is not set in environment variables''"
    by (simp add: initializeGroq_try_def no_key_world_def demo_world_def)
  from retry_loop [of initial_state no_key_world initial_state "[]"
          "''GROQ_API_KEY is not set in environment variables''"] k
  show "startup no_key_world =
     (exhausted_state,
      [ConsoleError [LogStr ''Failed to initialize Groq:'',
                     LogStr ''GROQ_API_KEY is not set in environment variables''], SetTimeout 1000,
       ConsoleError [LogStr ''Failed to initialize Groq:'',
                     LogStr ''GROQ_API_KEY is not set in environment variables''], SetTimeout 2000,
       ConsoleError [LogStr ''Failed to initialize Groq:'',
                     LogStr ''GROQ_API_KEY is not set in environment variables''], SetTimeout 3000])"
    unfolding exhausted_state_def by blast
next
  have g: "initializationAttempts initial_state < MAX_INITIALIZATION_ATTEMPTS \<and>
           groq initial_state = None \<and>
           initializeGroq demo_world initial_state =
             (True, \<lparr>groq = Some demo_client, initializationAttempts = 0\<rparr>,
              [NewGroq \<lparr>apiKey = ''gsk_demo'', timeout = 30000\<rparr>,
               ConsoleLog [LogStr ''Groq AI service initialized successfully'']])"
    by (simp add: initial_state_def MAX_INITIALIZATION_ATTEMPTS_def initializeGroq_def
        initializeGroq_try_def Groq_new_def demo_world_def demo_client_def Let_def)
  from retry_loop [of initial_state demo_world
          "\<lparr>groq = Some demo_client, initializationAttempts = 0\<rparr>"
          "[NewGroq \<lparr>apiKey = ''gsk_demo'', timeout = 30000\<rparr>,
            ConsoleLog [LogStr ''Groq AI service initialized successfully'']]"] g
  show "startup demo_world =
     (\<lparr>groq = Some demo_client, initializationAttempts = 0\<rparr>,
      [NewGroq \<lparr>apiKey = ''gsk_demo'', timeout = 30000\<rparr>,
       ConsoleLog [LogStr ''Groq AI service initialized successfully'']])"
    unfolding startup_def by blast
next
  have g: "\<not> (initializationAttempts exhausted_state < MAX_INITIALIZATION_ATTEMPTS \<and>
               groq exhausted_state = None)"
    by (simp add: exhausted_state_def MAX_INITIALIZATION_ATTEMPTS_def)
  from retry_loop [of exhausted_state demo_world] g
  show "initializeGroqWithRetry demo_world exhausted_state = (exhausted_state, [])"
    by blast
qed

text \<open>
  Claim C3. No request ever lowers the attempt counter. Once the counter has reached 3 with
  the client absent, no call of initializeGroqWithRetry attempts initialization again,
  whatever the environment then is: it returns the state unchanged with no effect. Hence
  every later POST /api/suggest and POST /api/format is answered with 503
  "AI service unavailable", and any sequence of requests leaves the counter and the absent
  client as they are.
\<close>

theorem retry_cap_is_permanent:
  "initializationAttempts s \<le> initializationAttempts (fst (serve s reqs)) \<and>
   (MAX_INITIALIZATION_ATTEMPTS \<le> initializationAttempts s \<and> groq s = None \<longrightarrow>
      initializeGroqWithRetry w s = (s, []) \<and>
      api_suggest w s b = (s, [], exhausted_outcome s (w, PostSuggest b)) \<and>
      api_format w s b = (s, [], exhausted_outcome s (w, PostFormat b)) \<and>
      serve s reqs = (s, [], map (exhausted_outcome s) reqs))"
proof (intro conjI impI)
  show "initializationAttempts s \<le> initializationAttempts (fst (serve s reqs))"
    by (rule serve_attempts_mono)
next
  assume a: "MAX_INITIALIZATION_ATTEMPTS \<le> initializationAttempts s \<and> groq s = None"
  then have c: "MAX_INITIALIZATION_ATTEMPTS \<le> initializationAttempts s" and g: "groq s = None"
    by simp_all
  show "initializeGroqWithRetry w s = (s, [])"
    using c by (simp add: retry_guard_false)
  show "api_suggest w s b = (s, [], exhausted_outcome s (w, PostSuggest b))"
    using handle_exhausted [OF c g, of w "PostSuggest b"] by simp
  show "api_format w s b = (s, [], exhausted_outcome s (w, PostFormat b))"
    using handle_exhausted [OF c g, of w "PostFormat b"] by simp
  show "serve s reqs = (s, [], map (exhausted_outcome s) reqs)"
  proof (induction reqs)
    case Nil
    show ?case by simp
  next
    case (Cons wr reqs)
    obtain w' r where wr: "wr = (w', r)" by (cases wr)
    show ?case
      using handle_exhausted [OF c g, of w' r] Cons.IH by (simp add: wr)
  qed
qed

theorem retry_cap_is_permanent_witness:
  "serve exhausted_state
     [(demo_world, PostSuggest [(''text'', JStr ''helo wrld'')]),
      (demo_world, GetHealth),
      (demo_world, PostFormat [(''text'', JStr ''helo wrld'')])] =
   (exhausted_state, [],
    [Sent \<lparr>status = 503,
           body = [(''error'', JStr ''AI service unavailable''),
                   (''message'', JStr ''The AI service is not properly initialized. Please try again later.'')]\<rparr>,
     Sent (health demo_world exhausted_state),
     Sent \<lparr>status = 503,
           body = [(''error'', JStr ''AI service unavailable''),
                   (''message'', JStr ''The AI service is not properly initialized. Please try again later.'')]\<rparr>])"
  using retry_cap_is_permanent [of exhausted_state
          "[(demo_world, PostSuggest [(''text'', JStr ''helo wrld'')]),
            (demo_world, GetHealth),
            (demo_world, PostFormat [(''text'', JStr ''helo wrld'')])]" demo_world "[]"]
  by (simp add: exhausted_state_def MAX_INITIALIZATION_ATTEMPTS_def)

end
